theory Spec2Isabelle
  imports Complex_Main
begin

section \<open>JavaScript numbers\<close>

text \<open>
  The stores compute with JavaScript Numbers. A finite Number is modelled by the real it
  stands for, so arithmetic on finite values is exact (the rounding of IEEE doubles is
  left out); the three special values are kept, since a division by zero produces them
  and \<open>Math.min\<close>, \<open>Math.max\<close> and \<open><\<close> treat them specially. Zero is unsigned: every
  zero divisor is taken as \<open>+0\<close>.
\<close>

datatype number = Fin real | PosInf | NegInf | NaN

text \<open>\<open>a / b\<close> on finite operands.\<close>

definition divide_number :: "real \<Rightarrow> real \<Rightarrow> number" where
  "divide_number a b =
     (if b \<noteq> 0 then Fin (a / b)
      else if 0 < a then PosInf
      else if a < 0 then NegInf
      else NaN)"

text \<open>\<open>x < y\<close>: false as soon as one side is \<open>NaN\<close>.\<close>

fun less_number :: "number \<Rightarrow> number \<Rightarrow> bool" where
  "less_number (Fin a) (Fin b) = (a < b)"
| "less_number (Fin a) PosInf = True"
| "less_number NegInf (Fin b) = True"
| "less_number NegInf PosInf = True"
| "less_number _ _ = False"

text \<open>\<open>x <= y\<close>, likewise false on \<open>NaN\<close>.\<close>

fun less_eq_number :: "number \<Rightarrow> number \<Rightarrow> bool" where
  "less_eq_number NaN _ = False"
| "less_eq_number _ NaN = False"
| "less_eq_number x y = (x = y \<or> less_number x y)"

fun Math_min :: "number \<Rightarrow> number \<Rightarrow> number" where
  "Math_min NaN _ = NaN"
| "Math_min _ NaN = NaN"
| "Math_min x y = (if less_number y x then y else x)"

fun Math_max :: "number \<Rightarrow> number \<Rightarrow> number" where
  "Math_max NaN _ = NaN"
| "Math_max _ NaN = NaN"
| "Math_max x y = (if less_number x y then y else x)"

fun Math_floor :: "number \<Rightarrow> number" where
  "Math_floor (Fin r) = Fin (of_int \<lfloor>r\<rfloor>)"
| "Math_floor x = x"

text \<open>
  The entries of an input-size tuple are integers, and so is every finite result of
  \<open>Math.round\<close>; \<open>Math.round\<close> passes the special values through. Halfway cases round
  towards \<open>+\<infinity>\<close>.
\<close>

datatype dim = Dim int | DimPosInf | DimNegInf | DimNaN

fun Math_round :: "number \<Rightarrow> dim" where
  "Math_round (Fin r) = Dim \<lfloor>r + 1 / 2\<rfloor>"
| "Math_round PosInf = DimPosInf"
| "Math_round NegInf = DimNegInf"
| "Math_round NaN = DimNaN"

text \<open>
  Conversion to a string, as the template literal and \<open>Array.prototype.join\<close> do it:
  decimal digits with a leading minus sign. (JavaScript switches to exponent notation
  from \<open>1e21\<close> on; tensor dimensions and batch sizes of that magnitude are outside the
  model.)
\<close>

fun digits :: "nat \<Rightarrow> string" where
  "digits n =
     (if n < 10 then [''0123456789'' ! n]
      else digits (n div 10) @ [''0123456789'' ! (n mod 10)])"

declare digits.simps [simp del]

fun Number_toString :: "dim \<Rightarrow> string" where
  "Number_toString (Dim i) = (if i < 0 then ''-'' @ digits (nat (- i)) else digits (nat i))"
| "Number_toString DimPosInf = ''Infinity''"
| "Number_toString DimNegInf = ''-Infinity''"
| "Number_toString DimNaN = ''NaN''"

text \<open>\<open>xs.join(sep)\<close> on an array of strings.\<close>

fun join :: "string \<Rightarrow> string list \<Rightarrow> string" where
  "join sep [] = []"
| "join sep [x] = x"
| "join sep (x # y # ys) = x @ sep @ join sep (y # ys)"


section \<open>The analysis messages\<close>

text \<open>
  The three messages handed to \<open>receivedAnalysis\<close>, each field named after the getter
  the store reads it with. A linear model is a slope and an intercept. The values list
  of the input size is a JavaScript array, an object with identity: the message holds
  its address in the heap below.
\<close>

record linear_model =
  slope :: real
  intercept :: real

record throughput_info =
  getRuntimeModelMs :: linear_model
  getMaxThroughput :: real
  getThroughputLimit :: real

record memory_info =
  getUsageModelMb :: linear_model
  getMaxCapacityMb :: real

record point =
  getLine :: nat
  getColumn :: nat

type_synonym addr = nat

record input_info =
  getAnnotationStart :: point
  getAnnotationEnd :: point
  getInputSize :: addr


section \<open>The helpers of utils\<close>

text \<open>
  The store imports three helpers from \<open>lib/utils\<close>. None of them rounds its result and
  none guards its division.
\<close>

text \<open>
  Modelled from the spec: \<open>evaluateLinearModel\<close> of \<open>lib/utils\<close>, the evaluation
  \<open>value(b) = slope*b + intercept\<close> of an affine model.
\<close>

definition evaluateLinearModel :: "linear_model \<Rightarrow> real \<Rightarrow> real" where
  "evaluateLinearModel model b = slope model * b + intercept model"

text \<open>
  Modelled from the spec: \<open>getBatchSizeFromUsage\<close> of \<open>lib/utils\<close>, the inversion
  \<open>batchSize = (targetUsageMb - intercept) / slope\<close> of the memory model.
\<close>

definition getBatchSizeFromUsage :: "linear_model \<Rightarrow> real \<Rightarrow> number" where
  "getBatchSizeFromUsage usageModelMb usageMb =
     divide_number (usageMb - intercept usageModelMb) (slope usageModelMb)"

text \<open>
  Modelled from the spec: \<open>getBatchSizeFromThroughput\<close> of \<open>lib/utils\<close>, the inversion
  \<open>batchSize = intercept * targetThroughput / (1000 - slope * targetThroughput)\<close> of
  the throughput \<open>1000*b / (slope*b + intercept)\<close>.
\<close>

definition getBatchSizeFromThroughput :: "linear_model \<Rightarrow> real \<Rightarrow> number" where
  "getBatchSizeFromThroughput runtimeModelMs throughput =
     divide_number (intercept runtimeModelMs * throughput)
       (1000 - slope runtimeModelMs * throughput)"


section \<open>The batch size store and its host\<close>

text \<open>
  \<open>store\<close> holds the fields of the \<open>BatchSizeStore\<close> object, \<open>null\<close> being \<open>None\<close>.
  \<open>world\<close> adds what the store's methods reach outside the object: the heap of
  arrays, and the calls made on the editor's buffer, on \<open>INNPVStore\<close> and on the
  store's own observers, recorded in the order they happen.
\<close>

record range =
  range_start :: "nat \<times> nat"
  range_end :: "nat \<times> nat"

datatype effect =
    CreateCheckpoint nat
  | IgnoreEditorChanges
  | SetTextInRange range string
  | GroupChangesSinceCheckpoint "nat option"
  | SubscribeToEditorChanges
  | NotifyChanged

datatype error = TypeError

datatype completion = Normal | Throw error

record store =
  throughputInfo :: "throughput_info option"
  memoryInfo :: "memory_info option"
  inputInfo :: "input_info option"
  predictedBatchSize :: "number option"
  maxBatchSize :: "number option"
  currentAnnotationRange :: "range option"
  currentUndoCheckpoint :: "nat option"

record world = store +
  heap :: "addr \<Rightarrow> dim list option"
  nextAddr :: addr
  nextCheckpoint :: nat
  effects :: "effect list"

text \<open>The store as its constructor leaves it, in a host with heap \<open>h\<close>.\<close>

definition constructor :: "(addr \<Rightarrow> dim list option) \<Rightarrow> addr \<Rightarrow> world" where
  "constructor h n =
     \<lparr>throughputInfo = None, memoryInfo = None, inputInfo = None,
      predictedBatchSize = None, maxBatchSize = None,
      currentAnnotationRange = None, currentUndoCheckpoint = None,
      heap = h, nextAddr = n, nextCheckpoint = 0, effects = []\<rparr>"

subsection \<open>Arrays\<close>

text \<open>
  \<open>xs.map(x => x)\<close> allocates a new array; \<open>a[0] = v\<close> writes through the reference
  \<open>a\<close>, and on an empty array makes it one element long.
\<close>

definition array_load :: "addr \<Rightarrow> world \<Rightarrow> dim list option" where
  "array_load a w = heap w a"

definition array_alloc :: "dim list \<Rightarrow> world \<Rightarrow> addr \<times> world" where
  "array_alloc xs w =
     (nextAddr w, w\<lparr>heap := (heap w)(nextAddr w \<mapsto> xs), nextAddr := Suc (nextAddr w)\<rparr>)"

fun assign_first :: "dim \<Rightarrow> dim list \<Rightarrow> dim list" where
  "assign_first v [] = [v]"
| "assign_first v (x # xs) = v # xs"

definition array_store_first :: "addr \<Rightarrow> dim \<Rightarrow> world \<Rightarrow> world" where
  "array_store_first a v w = w\<lparr>heap := (heap w)(a := map_option (assign_first v) (heap w a))\<rparr>"

subsection \<open>The host\<close>

text \<open>
  Modelled from the spec: the text surface the store writes to, that is the editor's
  buffer and the three methods of \<open>INNPVStore\<close> that reach it (\<open>getEditor\<close>,
  \<open>ignoreEditorChanges\<close>, \<open>subscribeToEditorChanges\<close>), which \<open>innpv_store.js\<close> does not
  define. The spec asks of it to replace the text of a range and return the new range,
  to open and group an undo checkpoint, and to suspend and resume change notifications;
  every such call succeeds and is recorded as an effect.
  \<open>buffer.setTextInRange(range, text)\<close> returns the range the new text occupies; the
  annotation is a single line, which starts where the old range started.
\<close>

definition setTextInRange :: "range \<Rightarrow> string \<Rightarrow> range" where
  "setTextInRange r text =
     \<lparr>range_start = range_start r,
      range_end = (fst (range_start r), snd (range_start r) + length text)\<rparr>"

definition emit :: "effect list \<Rightarrow> world \<Rightarrow> world" where
  "emit es w = w\<lparr>effects := effects w @ es\<rparr>"

text \<open>
  Modelled from the spec: \<open>notifyChanged\<close> of the base store, which \<open>BatchSizeStore\<close>
  extends: the single state-changed notification, without payload, sent to the observers.
\<close>

definition notifyChanged :: "world \<Rightarrow> world" where
  "notifyChanged w = emit [NotifyChanged] w"


subsection \<open>The methods\<close>

definition receivedAnalysis ::
  "throughput_info \<Rightarrow> memory_info \<Rightarrow> input_info \<Rightarrow> world \<Rightarrow> completion \<times> world" where
  "receivedAnalysis ti mi ii w =
     (let startPoint = getAnnotationStart ii;
          endPoint = getAnnotationEnd ii;
          checkpoint = nextCheckpoint w
      in (Normal,
          notifyChanged
            (emit [CreateCheckpoint checkpoint]
              (w\<lparr>throughputInfo := Some ti,
                 memoryInfo := Some mi,
                 inputInfo := Some ii,
                 predictedBatchSize := None,
                 maxBatchSize := Some (getBatchSizeFromUsage (getUsageModelMb mi) (getMaxCapacityMb mi)),
                 currentAnnotationRange :=
                   Some \<lparr>range_start = (getLine startPoint, getColumn startPoint),
                         range_end = (getLine endPoint, getColumn endPoint)\<rparr>,
                 currentUndoCheckpoint := Some checkpoint,
                 nextCheckpoint := Suc checkpoint\<rparr>))))"

text \<open>
  \<open>_getAnnotationString\<close>: reading the input size of a \<open>null\<close> input info throws. The
  copy is a new array, and the rounded prediction is written into the copy.
\<close>

definition getAnnotationString :: "world \<Rightarrow> (error + string) \<times> world" where
  "getAnnotationString w =
     (case inputInfo w of
        None \<Rightarrow> (Inl TypeError, w)
      | Some ii \<Rightarrow>
          (let inputSizeTuple = getInputSize ii in
           case array_load inputSizeTuple w of
             None \<Rightarrow> (Inl TypeError, w)
           | Some vs \<Rightarrow>
               (let (inputSizeCopy, w1) = array_alloc (map (\<lambda>x. x) vs) w;
                    w2 = (case predictedBatchSize w1 of
                            None \<Rightarrow> w1
                          | Some p \<Rightarrow> array_store_first inputSizeCopy (Math_round p) w1)
                in case array_load inputSizeCopy w2 of
                     None \<Rightarrow> (Inl TypeError, w2)
                   | Some cs \<Rightarrow>
                       (Inr (''@innpv size ('' @ join '', '' (map Number_toString cs) @ '')''),
                        w2))))"

definition updateAnnotationInBuffer :: "world \<Rightarrow> completion \<times> world" where
  "updateAnnotationInBuffer w =
     (case getAnnotationString w of
        (Inl e, w1) \<Rightarrow> (Throw e, w1)
      | (Inr updatedAnnotation, w1) \<Rightarrow>
          (case currentAnnotationRange w1 of
             None \<Rightarrow> (Throw TypeError, emit [IgnoreEditorChanges] w1)
           | Some r \<Rightarrow>
               (Normal,
                emit [IgnoreEditorChanges,
                      SetTextInRange r updatedAnnotation,
                      GroupChangesSinceCheckpoint (currentUndoCheckpoint w1),
                      SubscribeToEditorChanges]
                  (w1\<lparr>currentAnnotationRange := Some (setTextInRange r updatedAnnotation)\<rparr>))))"

text \<open>The common tail of the three mutators: rewrite the annotation, then notify.\<close>

definition updateAnnotationAndNotify :: "world \<Rightarrow> completion \<times> world" where
  "updateAnnotationAndNotify w =
     (case updateAnnotationInBuffer w of
        (Throw e, w1) \<Rightarrow> (Throw e, w1)
      | (Normal, w1) \<Rightarrow> (Normal, notifyChanged w1))"

definition updateMemoryUsage :: "real \<Rightarrow> real \<Rightarrow> world \<Rightarrow> completion \<times> world" where
  "updateMemoryUsage deltaPct basePct w =
     (case memoryInfo w of
        None \<Rightarrow> (Throw TypeError, w)
      | Some mi \<Rightarrow>
          (let updatedPct = basePct + deltaPct;
               updatedUsage = min (updatedPct / 100 * getMaxCapacityMb mi) (getMaxCapacityMb mi)
           in updateAnnotationAndNotify
                (w\<lparr>predictedBatchSize :=
                     Some (Math_max (getBatchSizeFromUsage (getUsageModelMb mi) updatedUsage)
                             (Fin 1))\<rparr>)))"

text \<open>\<open>Math.min\<close> converts a \<open>null\<close> argument to \<open>0\<close>.\<close>

fun ToNumber :: "number option \<Rightarrow> number" where
  "ToNumber None = Fin 0"
| "ToNumber (Some x) = x"

definition updateThroughput :: "real \<Rightarrow> real \<Rightarrow> world \<Rightarrow> completion \<times> world" where
  "updateThroughput deltaPct basePct w =
     (case throughputInfo w of
        None \<Rightarrow> (Throw TypeError, w)
      | Some ti \<Rightarrow>
          (let updatedPct = basePct + deltaPct;
               updatedThroughput =
                 max (min (updatedPct / 100 * getMaxThroughput ti) (getThroughputLimit ti)) 0;
               throughputBatchSize =
                 getBatchSizeFromThroughput (getRuntimeModelMs ti) updatedThroughput
           in updateAnnotationAndNotify
                (if less_number throughputBatchSize (Fin 0)
                 then w\<lparr>predictedBatchSize := maxBatchSize w\<rparr>
                 else w\<lparr>predictedBatchSize :=
                          Some (Math_max (Math_min throughputBatchSize (ToNumber (maxBatchSize w)))
                                  (Fin 1))\<rparr>)))"

definition clearPredictions :: "world \<Rightarrow> completion \<times> world" where
  "clearPredictions w = updateAnnotationAndNotify (w\<lparr>predictedBatchSize := None\<rparr>)"

text \<open>
  The getters return their value together with the world they leave behind.
  \<open>Throughput.fromInfo\<close>, \<open>Throughput.fromPrediction\<close> and their \<open>Memory\<close> counterparts
  belong to the model classes \<open>models/Throughput\<close> and \<open>models/Memory\<close>; what they build
  is left open, and they are parameters here.
\<close>

definition getThroughputModel ::
  "(throughput_info \<Rightarrow> 'p) \<Rightarrow> (throughput_info \<Rightarrow> number \<Rightarrow> 'p) \<Rightarrow> world \<Rightarrow> 'p option \<times> world" where
  "getThroughputModel fromInfo fromPrediction w =
     (case throughputInfo w of
        None \<Rightarrow> (None, w)
      | Some ti \<Rightarrow>
          (case predictedBatchSize w of
             None \<Rightarrow> (Some (fromInfo ti), w)
           | Some p \<Rightarrow> (Some (fromPrediction ti p), w)))"

definition getMemoryModel ::
  "(memory_info \<Rightarrow> 'p) \<Rightarrow> (memory_info \<Rightarrow> number \<Rightarrow> 'p) \<Rightarrow> world \<Rightarrow> 'p option \<times> world" where
  "getMemoryModel fromInfo fromPrediction w =
     (case memoryInfo w of
        None \<Rightarrow> (None, w)
      | Some mi \<Rightarrow>
          (case predictedBatchSize w of
             None \<Rightarrow> (Some (fromInfo mi), w)
           | Some p \<Rightarrow> (Some (fromPrediction mi p), w)))"

definition getInputInfo :: "world \<Rightarrow> input_info option" where
  "getInputInfo w = inputInfo w"

subsection \<open>Sequences of calls\<close>

text \<open>
  Each call is one event of the host; what a call that throws has already written stays
  written, and the next call runs on that state.
\<close>

datatype adjustment =
    UpdateMemoryUsage real real
  | UpdateThroughput real real
  | ClearPredictions

fun adjust :: "adjustment \<Rightarrow> world \<Rightarrow> completion \<times> world" where
  "adjust (UpdateMemoryUsage deltaPct basePct) w = updateMemoryUsage deltaPct basePct w"
| "adjust (UpdateThroughput deltaPct basePct) w = updateThroughput deltaPct basePct w"
| "adjust ClearPredictions w = clearPredictions w"

datatype call =
    ReceivedAnalysis throughput_info memory_info input_info
  | Adjust adjustment

fun perform :: "call \<Rightarrow> world \<Rightarrow> completion \<times> world" where
  "perform (ReceivedAnalysis ti mi ii) w = receivedAnalysis ti mi ii w"
| "perform (Adjust a) w = adjust a w"

fun run :: "call list \<Rightarrow> world \<Rightarrow> world" where
  "run [] w = w"
| "run (c # cs) w = run cs (snd (perform c w))"


section \<open>The application store\<close>

text \<open>
  \<open>INNPVStore\<close> keeps the application state and an event emitter with the single event
  \<open>updated\<close>. Callbacks are opaque: a callback is an identifier, and each \<open>emit\<close> is
  recorded as the list of callbacks it invoked, in order. The emitter is Node's:
  \<open>on\<close> appends (the same callback may be registered more than once),
  \<open>removeListener\<close> takes out the most recently added occurrence, and \<open>emit\<close> calls
  the registered listeners synchronously in the order of registration.
\<close>

type_synonym callback = nat

record 'st innpv_store =
  appState :: 'st
  listeners :: "callback list"
  emitted :: "callback list list"

definition innpv_constructor :: "'st \<Rightarrow> 'st innpv_store" where
  "innpv_constructor activated = \<lparr>appState = activated, listeners = [], emitted = []\<rparr>"

fun remove_last :: "callback \<Rightarrow> callback list \<Rightarrow> callback list" where
  "remove_last c [] = []"
| "remove_last c (x # xs) =
     (if c \<in> set xs then x # remove_last c xs
      else if c = x then xs
      else x # xs)"

definition getAppState :: "'st innpv_store \<Rightarrow> 'st" where
  "getAppState s = appState s"

definition innpv_notifyChanged :: "'st innpv_store \<Rightarrow> 'st innpv_store" where
  "innpv_notifyChanged s = s\<lparr>emitted := emitted s @ [listeners s]\<rparr>"

definition setAppState :: "'st \<Rightarrow> 'st innpv_store \<Rightarrow> 'st innpv_store" where
  "setAppState state s = innpv_notifyChanged (s\<lparr>appState := state\<rparr>)"

definition addListener :: "callback \<Rightarrow> 'st innpv_store \<Rightarrow> 'st innpv_store" where
  "addListener c s = s\<lparr>listeners := listeners s @ [c]\<rparr>"

definition removeListener :: "callback \<Rightarrow> 'st innpv_store \<Rightarrow> 'st innpv_store" where
  "removeListener c s = s\<lparr>listeners := remove_last c (listeners s)\<rparr>"

datatype 'st innpv_call =
    SetAppState 'st
  | AddListener callback
  | RemoveListener callback

fun innpv_perform :: "'st innpv_call \<Rightarrow> 'st innpv_store \<Rightarrow> 'st innpv_store" where
  "innpv_perform (SetAppState state) s = setAppState state s"
| "innpv_perform (AddListener c) s = addListener c s"
| "innpv_perform (RemoveListener c) s = removeListener c s"

fun innpv_run :: "'st innpv_call list \<Rightarrow> 'st innpv_store \<Rightarrow> 'st innpv_store" where
  "innpv_run [] s = s"
| "innpv_run (c # cs) s = innpv_run cs (innpv_perform c s)"



section \<open>Scenarios\<close>

text \<open>
  The models of the spec's concrete scenarios, and a few others used below: a device
  whose capacity is not a whole number of samples above the intercept, a device too
  small for a single sample, runtime models without a positive intercept, and a
  throughput limit beyond the asymptote of the runtime model.
\<close>

definition scenario_memory :: memory_info where
  "scenario_memory =
     \<lparr>getUsageModelMb = \<lparr>slope = 50, intercept = 200\<rparr>, getMaxCapacityMb = 8000\<rparr>"

definition scenario_throughput :: throughput_info where
  "scenario_throughput =
     \<lparr>getRuntimeModelMs = \<lparr>slope = 2, intercept = 10\<rparr>,
      getMaxThroughput = 400, getThroughputLimit = 450\<rparr>"

definition scenario_input :: input_info where
  "scenario_input =
     \<lparr>getAnnotationStart = \<lparr>getLine = 3, getColumn = 0\<rparr>,
      getAnnotationEnd = \<lparr>getLine = 3, getColumn = 30\<rparr>,
      getInputSize = 0\<rparr>"

definition scenario_world :: world where
  "scenario_world = constructor [0 \<mapsto> [Dim 32, Dim 3, Dim 224, Dim 224]] 1"

definition uneven_memory :: memory_info where
  "uneven_memory =
     \<lparr>getUsageModelMb = \<lparr>slope = 50, intercept = 200\<rparr>, getMaxCapacityMb = 8010\<rparr>"

definition small_memory :: memory_info where
  "small_memory =
     \<lparr>getUsageModelMb = \<lparr>slope = 50, intercept = 200\<rparr>, getMaxCapacityMb = 220\<rparr>"

definition flat_throughput :: throughput_info where
  "flat_throughput =
     \<lparr>getRuntimeModelMs = \<lparr>slope = 2, intercept = 0\<rparr>,
      getMaxThroughput = 500, getThroughputLimit = 600\<rparr>"

definition negative_throughput :: throughput_info where
  "negative_throughput =
     \<lparr>getRuntimeModelMs = \<lparr>slope = 2, intercept = - 10\<rparr>,
      getMaxThroughput = 600, getThroughputLimit = 700\<rparr>"

definition unlimited_throughput :: throughput_info where
  "unlimited_throughput =
     \<lparr>getRuntimeModelMs = \<lparr>slope = 2, intercept = 10\<rparr>,
      getMaxThroughput = 400, getThroughputLimit = 600\<rparr>"


section \<open>What the mutators leave alone\<close>

lemmas annotation_defs =
  updateAnnotationAndNotify_def updateAnnotationInBuffer_def getAnnotationString_def
  array_alloc_def array_store_first_def array_load_def emit_def notifyChanged_def

lemma updateAnnotationAndNotify_fields:
  "throughputInfo (snd (updateAnnotationAndNotify w)) = throughputInfo w"
  "memoryInfo (snd (updateAnnotationAndNotify w)) = memoryInfo w"
  "inputInfo (snd (updateAnnotationAndNotify w)) = inputInfo w"
  "predictedBatchSize (snd (updateAnnotationAndNotify w)) = predictedBatchSize w"
  "maxBatchSize (snd (updateAnnotationAndNotify w)) = maxBatchSize w"
  by (simp_all add: annotation_defs Let_def
      split: option.splits prod.splits sum.splits completion.splits)

lemma updateAnnotationAndNotify_heap:
  "a < nextAddr w \<Longrightarrow> heap (snd (updateAnnotationAndNotify w)) a = heap w a"
  by (simp add: annotation_defs Let_def
      split: option.splits prod.splits sum.splits completion.splits)

lemma updateAnnotationAndNotify_nextAddr:
  "n \<le> nextAddr w \<Longrightarrow> n \<le> nextAddr (snd (updateAnnotationAndNotify w))"
  by (simp add: annotation_defs Let_def
      split: option.splits prod.splits sum.splits completion.splits)

lemma adjust_fields:
  "throughputInfo (snd (adjust a w)) = throughputInfo w"
  "memoryInfo (snd (adjust a w)) = memoryInfo w"
  "inputInfo (snd (adjust a w)) = inputInfo w"
  "maxBatchSize (snd (adjust a w)) = maxBatchSize w"
  by (cases a; simp add: updateMemoryUsage_def updateThroughput_def clearPredictions_def
        updateAnnotationAndNotify_fields Let_def split: option.splits)+

lemma adjust_heap:
  "a < nextAddr w \<Longrightarrow> heap (snd (adjust c w)) a = heap w a"
  by (cases c; simp add: updateMemoryUsage_def updateThroughput_def clearPredictions_def
        updateAnnotationAndNotify_heap Let_def split: option.splits)

lemma adjust_nextAddr:
  "n \<le> nextAddr w \<Longrightarrow> n \<le> nextAddr (snd (adjust c w))"
  by (cases c; simp add: updateMemoryUsage_def updateThroughput_def clearPredictions_def
        updateAnnotationAndNotify_nextAddr Let_def split: option.splits)

lemma receivedAnalysis_heap:
  "heap (snd (receivedAnalysis ti mi ii w)) = heap w"
  "nextAddr (snd (receivedAnalysis ti mi ii w)) = nextAddr w"
  by (simp_all add: receivedAnalysis_def Let_def notifyChanged_def emit_def)

lemma run_adjust_fields:
  "throughputInfo (run (map Adjust as) w) = throughputInfo w"
  "memoryInfo (run (map Adjust as) w) = memoryInfo w"
  "inputInfo (run (map Adjust as) w) = inputInfo w"
  "maxBatchSize (run (map Adjust as) w) = maxBatchSize w"
  by (induction as arbitrary: w; simp add: adjust_fields)+

lemma perform_heap:
  "a < nextAddr w \<Longrightarrow> heap (snd (perform c w)) a = heap w a"
  by (cases c) (simp_all add: receivedAnalysis_heap adjust_heap)

lemma perform_nextAddr:
  "n \<le> nextAddr w \<Longrightarrow> n \<le> nextAddr (snd (perform c w))"
  by (cases c) (simp_all add: receivedAnalysis_heap adjust_nextAddr)

lemma run_heap:
  "a < nextAddr w \<Longrightarrow> heap (run cs w) a = heap w a"
proof (induction cs arbitrary: w)
  case Nil
  show ?case by simp
next
  case (Cons c cs)
  have "a < nextAddr (snd (perform c w))"
    using Cons.prems perform_nextAddr [of "Suc a" w c] by simp
  then have "heap (run cs (snd (perform c w))) a = heap (snd (perform c w)) a"
    by (rule Cons.IH)
  then show ?case
    using Cons.prems by (simp add: perform_heap)
qed

lemma receivedAnalysis_fields:
  "throughputInfo (snd (receivedAnalysis ti mi ii w)) = Some ti"
  "memoryInfo (snd (receivedAnalysis ti mi ii w)) = Some mi"
  "inputInfo (snd (receivedAnalysis ti mi ii w)) = Some ii"
  "predictedBatchSize (snd (receivedAnalysis ti mi ii w)) = None"
  "maxBatchSize (snd (receivedAnalysis ti mi ii w)) =
     Some (getBatchSizeFromUsage (getUsageModelMb mi) (getMaxCapacityMb mi))"
  by (simp_all add: receivedAnalysis_def Let_def notifyChanged_def emit_def)




section \<open>What the annotation rewrite does\<close>

lemma join_Cons:
  "join sep (x # xs) = x @ concat (map (\<lambda>y. sep @ y) xs)"
  by (induction xs arbitrary: x) simp_all

lemma getAnnotationString_value:
  assumes "inputInfo w = Some ii" and "heap w (getInputSize ii) = Some vs"
  shows "fst (getAnnotationString w) =
     Inr (''@innpv size ('' @
          join '', '' (map Number_toString
            (case predictedBatchSize w of None \<Rightarrow> vs | Some p \<Rightarrow> assign_first (Math_round p) vs))
          @ '')'')"
  using assms
  by (simp add: getAnnotationString_def array_load_def array_alloc_def array_store_first_def
      Let_def split: option.splits)

lemma getAnnotationString_fields:
  "currentAnnotationRange (snd (getAnnotationString w)) = currentAnnotationRange w"
  "currentUndoCheckpoint (snd (getAnnotationString w)) = currentUndoCheckpoint w"
  "effects (snd (getAnnotationString w)) = effects w"
  "predictedBatchSize (snd (getAnnotationString w)) = predictedBatchSize w"
  by (simp_all add: getAnnotationString_def array_load_def array_alloc_def array_store_first_def
      Let_def split: option.splits)

lemma updateAnnotationInBuffer_effects:
  assumes "inputInfo w = Some ii" and "heap w (getInputSize ii) = Some vs"
    and "currentAnnotationRange w = Some r"
  shows "fst (updateAnnotationInBuffer w) = Normal"
    and "effects (snd (updateAnnotationInBuffer w)) =
       effects w @
       [IgnoreEditorChanges,
        SetTextInRange r
          (''@innpv size ('' @
           join '', '' (map Number_toString
             (case predictedBatchSize w of None \<Rightarrow> vs | Some p \<Rightarrow> assign_first (Math_round p) vs))
           @ '')''),
        GroupChangesSinceCheckpoint (currentUndoCheckpoint w),
        SubscribeToEditorChanges]"
    and "predictedBatchSize (snd (updateAnnotationInBuffer w)) = predictedBatchSize w"
proof -
  obtain res w1 where g: "getAnnotationString w = (res, w1)"
    by (cases "getAnnotationString w")
  have res: "res = Inr (''@innpv size ('' @
           join '', '' (map Number_toString
             (case predictedBatchSize w of None \<Rightarrow> vs | Some p \<Rightarrow> assign_first (Math_round p) vs))
           @ '')'')"
    using getAnnotationString_value [OF assms(1,2)] g by simp
  have w1: "currentAnnotationRange w1 = Some r" "currentUndoCheckpoint w1 = currentUndoCheckpoint w"
    "effects w1 = effects w" "predictedBatchSize w1 = predictedBatchSize w"
    using getAnnotationString_fields [of w] g assms(3) by simp_all
  show "fst (updateAnnotationInBuffer w) = Normal"
    by (simp add: updateAnnotationInBuffer_def g res w1)
  show "effects (snd (updateAnnotationInBuffer w)) =
       effects w @
       [IgnoreEditorChanges,
        SetTextInRange r
          (''@innpv size ('' @
           join '', '' (map Number_toString
             (case predictedBatchSize w of None \<Rightarrow> vs | Some p \<Rightarrow> assign_first (Math_round p) vs))
           @ '')''),
        GroupChangesSinceCheckpoint (currentUndoCheckpoint w),
        SubscribeToEditorChanges]"
    by (simp add: updateAnnotationInBuffer_def g res w1 emit_def)
  show "predictedBatchSize (snd (updateAnnotationInBuffer w)) = predictedBatchSize w"
    by (simp add: updateAnnotationInBuffer_def g res w1 emit_def)
qed

lemma updateAnnotationAndNotify_range:
  "currentAnnotationRange w = Some r \<Longrightarrow>
   \<exists>r'. currentAnnotationRange (snd (updateAnnotationAndNotify w)) = Some r'"
  by (auto simp add: annotation_defs Let_def
      split: option.splits prod.splits sum.splits completion.splits)

lemma updateAnnotationAndNotify_checkpoint:
  "currentUndoCheckpoint (snd (updateAnnotationAndNotify w)) = currentUndoCheckpoint w"
  by (simp add: annotation_defs Let_def
      split: option.splits prod.splits sum.splits completion.splits)

lemma adjust_range:
  assumes "currentAnnotationRange w = Some r"
  shows "\<exists>r'. currentAnnotationRange (snd (adjust c w)) = Some r'"
proof (cases c)
  case (UpdateMemoryUsage deltaPct basePct)
  show ?thesis
  proof (cases "memoryInfo w")
    case None
    then show ?thesis
      using assms UpdateMemoryUsage by (simp add: updateMemoryUsage_def)
  next
    case (Some mi)
    then show ?thesis
      using assms UpdateMemoryUsage
      by (simp add: updateMemoryUsage_def Let_def updateAnnotationAndNotify_range)
  qed
next
  case (UpdateThroughput deltaPct basePct)
  show ?thesis
  proof (cases "throughputInfo w")
    case None
    then show ?thesis
      using assms UpdateThroughput by (simp add: updateThroughput_def)
  next
    case (Some ti)
    then show ?thesis
      using assms UpdateThroughput
      by (simp add: updateThroughput_def Let_def updateAnnotationAndNotify_range)
  qed
next
  case ClearPredictions
  then show ?thesis
    using assms by (simp add: clearPredictions_def updateAnnotationAndNotify_range)
qed

lemma run_adjust_range:
  "currentAnnotationRange w = Some r \<Longrightarrow>
   \<exists>r'. currentAnnotationRange (run (map Adjust as) w) = Some r'"
proof (induction as arbitrary: w r)
  case Nil
  then show ?case by simp
next
  case (Cons a as)
  obtain r' where "currentAnnotationRange (snd (adjust a w)) = Some r'"
    using adjust_range [OF Cons.prems] by blast
  then show ?case
    using Cons.IH by simp
qed

lemma receivedAnalysis_range:
  "\<exists>r. currentAnnotationRange (snd (receivedAnalysis ti mi ii w)) = Some r"
  by (simp add: receivedAnalysis_def Let_def notifyChanged_def emit_def)

lemma run_nextAddr:
  "n \<le> nextAddr w \<Longrightarrow> n \<le> nextAddr (run cs w)"
  by (induction cs arbitrary: w) (simp_all add: perform_nextAddr)

lemma updateAnnotationAndNotify_Normal:
  "fst (updateAnnotationInBuffer w) = Normal \<Longrightarrow>
   updateAnnotationAndNotify w = (Normal, notifyChanged (snd (updateAnnotationInBuffer w)))"
  by (cases "updateAnnotationInBuffer w") (simp add: updateAnnotationAndNotify_def)

lemma round_nearest:
  "\<bar>real_of_int \<lfloor>x + 1 / 2\<rfloor> - x\<bar> \<le> 1 / 2"
  by linarith



section \<open>Clamping\<close>

lemma clamp_range:
  assumes "less_eq_number (Fin 1) M" and "x \<noteq> NaN"
  shows "less_eq_number (Fin 1) (Math_max (Math_min x M) (Fin 1))"
    and "less_eq_number (Math_max (Math_min x M) (Fin 1)) M"
  using assms by (cases x; cases M; auto)+

lemma clamp_PosInf:
  "less_eq_number (Fin 1) M \<Longrightarrow> Math_max (Math_min PosInf M) (Fin 1) = M"
  by (cases M) auto

lemma less_eq_number_refl:
  "less_eq_number (Fin 1) M \<Longrightarrow> less_eq_number M M"
  by (cases M) auto

lemma less_eq_number_Fin:
  "less_eq_number (Fin a) (Fin b) = (a \<le> b)"
  by auto

lemma adjusted_state:
  assumes "w = run (map Adjust as) (snd (receivedAnalysis ti mi ii w0))"
  shows "throughputInfo w = Some ti" and "memoryInfo w = Some mi"
    and "maxBatchSize w = Some (getBatchSizeFromUsage (getUsageModelMb mi) (getMaxCapacityMb mi))"
  by (simp_all add: assms run_adjust_fields receivedAnalysis_fields)


section \<open>The feasible ceiling\<close>

text \<open>
  Claim C3, as amended. \<open>receivedAnalysis\<close> stores as \<open>maxBatchSize\<close> the batch size at
  which the projected memory usage equals the capacity, exactly as
  \<open>getBatchSizeFromUsage\<close> returns it: the value is not floored. With the memory model
  \<open>{slope: 50, intercept: 200}\<close> and a capacity of \<open>8000\<close> it is \<open>156\<close>.
\<close>

theorem receivedAnalysis_maxBatchSize:
  "maxBatchSize (snd (receivedAnalysis ti mi ii w)) =
     Some (getBatchSizeFromUsage (getUsageModelMb mi) (getMaxCapacityMb mi))
   \<and> (getUsageModelMb mi = \<lparr>slope = 50, intercept = 200\<rparr> \<and> getMaxCapacityMb mi = 8000 \<longrightarrow>
        maxBatchSize (snd (receivedAnalysis ti mi ii w)) = Some (Fin 156))"
  by (simp add: receivedAnalysis_fields getBatchSizeFromUsage_def divide_number_def)

theorem receivedAnalysis_maxBatchSize_witness:
  "maxBatchSize
     (snd (receivedAnalysis scenario_throughput scenario_memory scenario_input scenario_world))
   = Some (Fin 156)"
proof -
  have "getUsageModelMb scenario_memory = \<lparr>slope = 50, intercept = 200\<rparr>
        \<and> getMaxCapacityMb scenario_memory = 8000"
    by (simp add: scenario_memory_def)
  then show ?thesis
    using receivedAnalysis_maxBatchSize
      [of scenario_throughput scenario_memory scenario_input scenario_world]
    by blast
qed

text \<open>
  With a capacity of \<open>8010\<close> the stored ceiling is \<open>156.2\<close>, which is not the floor
  \<open>156\<close> of the inversion.
\<close>

theorem receivedAnalysis_floor_counterexample:
  "maxBatchSize
     (snd (receivedAnalysis scenario_throughput uneven_memory scenario_input scenario_world))
   \<noteq> Some (Math_floor
         (getBatchSizeFromUsage (getUsageModelMb uneven_memory) (getMaxCapacityMb uneven_memory)))
   \<and> maxBatchSize
       (snd (receivedAnalysis scenario_throughput uneven_memory scenario_input scenario_world))
     = Some (Fin (781 / 5))
   \<and> Math_floor
       (getBatchSizeFromUsage (getUsageModelMb uneven_memory) (getMaxCapacityMb uneven_memory))
     = Fin 156"
  by (simp add: receivedAnalysis_fields getBatchSizeFromUsage_def divide_number_def
      uneven_memory_def)


section \<open>Inverting the memory model\<close>

text \<open>
  Claim C4. For a memory model with strictly positive slope and a batch size \<open>b > 0\<close>,
  inverting the usage that the model gives at \<open>b\<close> returns \<open>b\<close>.
\<close>

theorem getBatchSizeFromUsage_roundtrip:
  "0 < slope model \<Longrightarrow> 0 < b \<Longrightarrow>
   getBatchSizeFromUsage model (evaluateLinearModel model b) = Fin b"
  by (simp add: getBatchSizeFromUsage_def evaluateLinearModel_def divide_number_def)

theorem getBatchSizeFromUsage_roundtrip_witness:
  "getBatchSizeFromUsage \<lparr>slope = 50, intercept = 200\<rparr>
     (evaluateLinearModel \<lparr>slope = 50, intercept = 200\<rparr> 3) = Fin 3
   \<and> evaluateLinearModel \<lparr>slope = 50, intercept = 200\<rparr> 3 = 350"
  using getBatchSizeFromUsage_roundtrip [of "\<lparr>slope = 50, intercept = 200\<rparr>" 3]
  by (simp add: evaluateLinearModel_def)


section \<open>The frame of the adjustments\<close>

text \<open>
  Claim C7. Whatever the state and the arguments, and whether the call returns or
  throws, \<open>updateMemoryUsage\<close> and \<open>updateThroughput\<close> leave \<open>throughputInfo\<close>,
  \<open>memoryInfo\<close>, \<open>inputInfo\<close> and \<open>maxBatchSize\<close> as they were: of the five fields of the
  prediction state only \<open>predictedBatchSize\<close> may change.
\<close>

theorem adjustments_frame:
  "throughputInfo (snd (updateMemoryUsage deltaPct basePct w)) = throughputInfo w
   \<and> memoryInfo (snd (updateMemoryUsage deltaPct basePct w)) = memoryInfo w
   \<and> inputInfo (snd (updateMemoryUsage deltaPct basePct w)) = inputInfo w
   \<and> maxBatchSize (snd (updateMemoryUsage deltaPct basePct w)) = maxBatchSize w
   \<and> throughputInfo (snd (updateThroughput deltaPct basePct w)) = throughputInfo w
   \<and> memoryInfo (snd (updateThroughput deltaPct basePct w)) = memoryInfo w
   \<and> inputInfo (snd (updateThroughput deltaPct basePct w)) = inputInfo w
   \<and> maxBatchSize (snd (updateThroughput deltaPct basePct w)) = maxBatchSize w"
  using adjust_fields [of "UpdateMemoryUsage deltaPct basePct" w]
    adjust_fields [of "UpdateThroughput deltaPct basePct" w]
  by simp



section \<open>The projections\<close>

text \<open>
  Claim C6. \<open>getThroughputModel\<close> and \<open>getMemoryModel\<close> leave the world exactly as they
  found it. Each returns \<open>null\<close> when its info is \<open>null\<close>, the projection built from the
  measured info when no prediction is active, and the projection built from the info
  and \<open>predictedBatchSize\<close> when one is.
\<close>

theorem getters_pure:
  "snd (getThroughputModel fromInfo fromPrediction w) = w
   \<and> snd (getMemoryModel fromInfo' fromPrediction' w) = w
   \<and> (throughputInfo w = None \<longrightarrow> fst (getThroughputModel fromInfo fromPrediction w) = None)
   \<and> (throughputInfo w = Some ti \<and> predictedBatchSize w = None \<longrightarrow>
        fst (getThroughputModel fromInfo fromPrediction w) = Some (fromInfo ti))
   \<and> (throughputInfo w = Some ti \<and> predictedBatchSize w = Some p \<longrightarrow>
        fst (getThroughputModel fromInfo fromPrediction w) = Some (fromPrediction ti p))
   \<and> (memoryInfo w = None \<longrightarrow> fst (getMemoryModel fromInfo' fromPrediction' w) = None)
   \<and> (memoryInfo w = Some mi \<and> predictedBatchSize w = None \<longrightarrow>
        fst (getMemoryModel fromInfo' fromPrediction' w) = Some (fromInfo' mi))
   \<and> (memoryInfo w = Some mi \<and> predictedBatchSize w = Some p \<longrightarrow>
        fst (getMemoryModel fromInfo' fromPrediction' w) = Some (fromPrediction' mi p))"
  by (simp add: getThroughputModel_def getMemoryModel_def split: option.splits)

theorem getters_pure_witness:
  "fst (getThroughputModel Inl (\<lambda>ti p. Inr (ti, p)) scenario_world) = None
   \<and> fst (getMemoryModel Inl (\<lambda>mi p. Inr (mi, p)) scenario_world) = None
   \<and> fst (getThroughputModel Inl (\<lambda>ti p. Inr (ti, p))
        (snd (receivedAnalysis scenario_throughput scenario_memory scenario_input scenario_world)))
      = Some (Inl scenario_throughput)
   \<and> fst (getMemoryModel Inl (\<lambda>mi p. Inr (mi, p))
        (snd (receivedAnalysis scenario_throughput scenario_memory scenario_input scenario_world)))
      = Some (Inl scenario_memory)
   \<and> fst (getThroughputModel Inl (\<lambda>ti p. Inr (ti, p))
        (snd (updateThroughput 0 100
          (snd (receivedAnalysis scenario_throughput scenario_memory scenario_input scenario_world)))))
      = Some (Inr (scenario_throughput, Fin 20))
   \<and> fst (getMemoryModel Inl (\<lambda>mi p. Inr (mi, p))
        (snd (updateThroughput 0 100
          (snd (receivedAnalysis scenario_throughput scenario_memory scenario_input scenario_world)))))
      = Some (Inr (scenario_memory, Fin 20))"
proof -
  let ?fp = "\<lambda>x (p::number). Inr (x, p)"
  let ?a = "snd (receivedAnalysis scenario_throughput scenario_memory scenario_input scenario_world)"
  let ?p = "snd (updateThroughput 0 100 ?a)"
  have e: "throughputInfo scenario_world = None" "memoryInfo scenario_world = None"
    by (simp_all add: scenario_world_def constructor_def)
  have a: "throughputInfo ?a = Some scenario_throughput" "memoryInfo ?a = Some scenario_memory"
    "predictedBatchSize ?a = None"
    by (simp_all add: receivedAnalysis_fields)
  have p: "throughputInfo ?p = Some scenario_throughput" "memoryInfo ?p = Some scenario_memory"
    using adjust_fields [of "UpdateThroughput 0 100" ?a] by (simp_all add: receivedAnalysis_fields)
  have q: "predictedBatchSize ?p = Some (Fin 20)"
    unfolding scenario_throughput_def scenario_memory_def scenario_input_def scenario_world_def
    by code_simp
  show ?thesis
    using e a p q
      getters_pure [of Inl ?fp scenario_world Inl ?fp]
      getters_pure [of Inl ?fp ?a Inl ?fp scenario_throughput _ scenario_memory]
      getters_pure [of Inl ?fp ?p Inl ?fp scenario_throughput "Fin 20" scenario_memory]
    by simp
qed


section \<open>The input size is never written\<close>

text \<open>
  Claim C9. Let the store hold an input info whose values list was allocated before.
  Then after any sequence of adjustments \<open>getInputInfo\<close> returns that same input info,
  and after any sequence of calls whatever (new analyses included) the values list
  holds what it held: \<open>_getAnnotationString\<close> writes to no array but the copy it has
  just allocated.
\<close>

theorem inputSize_never_mutated:
  assumes "inputInfo w = Some ii" and "getInputSize ii < nextAddr w"
  shows "getInputInfo (run (map Adjust as) w) = Some ii
       \<and> array_load (getInputSize ii) (run cs w) = array_load (getInputSize ii) w
       \<and> (a \<noteq> nextAddr w \<longrightarrow> heap (snd (getAnnotationString w)) a = heap w a)"
proof -
  have "getInputInfo (run (map Adjust as) w) = Some ii"
    using assms(1) by (simp add: getInputInfo_def run_adjust_fields)
  moreover have "array_load (getInputSize ii) (run cs w) = array_load (getInputSize ii) w"
    using assms(2) by (simp add: array_load_def run_heap)
  moreover have "a \<noteq> nextAddr w \<longrightarrow> heap (snd (getAnnotationString w)) a = heap w a"
    by (simp add: getAnnotationString_def array_load_def array_alloc_def array_store_first_def
        Let_def split: option.splits)
  ultimately show ?thesis by simp
qed

theorem inputSize_never_mutated_witness:
  "getInputInfo
     (run (map Adjust [UpdateMemoryUsage 0 100, UpdateThroughput 25 100])
       (snd (receivedAnalysis scenario_throughput scenario_memory scenario_input scenario_world)))
   = Some scenario_input
   \<and> array_load (getInputSize scenario_input)
       (run [Adjust (UpdateMemoryUsage 0 100),
             ReceivedAnalysis scenario_throughput small_memory scenario_input,
             Adjust (UpdateThroughput 25 100)]
         (snd (receivedAnalysis scenario_throughput scenario_memory scenario_input scenario_world)))
     = Some [Dim 32, Dim 3, Dim 224, Dim 224]"
proof -
  let ?w = "snd (receivedAnalysis scenario_throughput scenario_memory scenario_input scenario_world)"
  have i: "inputInfo ?w = Some scenario_input"
    by (simp add: receivedAnalysis_fields)
  have n: "getInputSize scenario_input < nextAddr ?w"
    by (simp add: receivedAnalysis_heap scenario_input_def scenario_world_def constructor_def)
  have l: "array_load (getInputSize scenario_input) ?w = Some [Dim 32, Dim 3, Dim 224, Dim 224]"
    by (simp add: array_load_def receivedAnalysis_heap scenario_input_def scenario_world_def
        constructor_def)
  show ?thesis
    using inputSize_never_mutated [OF i n] by (simp only: l)
qed


section \<open>The application state and its listeners\<close>

lemma remove_last_keeps:
  "c \<in> set xs \<Longrightarrow> c \<noteq> d \<Longrightarrow> c \<in> set (remove_last d xs)"
  by (induction xs) auto

lemma innpv_run_keeps_listener:
  "RemoveListener c \<notin> set cs \<Longrightarrow> c \<in> set (listeners s) \<Longrightarrow> c \<in> set (listeners (innpv_run cs s))"
proof (induction cs arbitrary: s)
  case Nil
  then show ?case by simp
next
  case (Cons x cs)
  have "c \<in> set (listeners (innpv_perform x s))"
  proof (cases x)
    case (SetAppState st)
    then show ?thesis
      using Cons.prems(2) by (simp add: setAppState_def innpv_notifyChanged_def)
  next
    case (AddListener d)
    then show ?thesis
      using Cons.prems(2) by (simp add: addListener_def)
  next
    case (RemoveListener d)
    then have "c \<noteq> d" using Cons.prems(1) by auto
    then show ?thesis
      using RemoveListener Cons.prems(2) by (simp add: removeListener_def remove_last_keeps)
  qed
  then show ?case
    using Cons.IH [of "innpv_perform x s"] Cons.prems(1) by simp
qed

text \<open>
  Claim C10. After \<open>setAppState(state)\<close>, \<open>getAppState()\<close> returns \<open>state\<close>. The call
  emits exactly one notification, which invokes the registered listeners, each once per
  registration and in the order of registration, before the call returns; the listeners
  stay registered. A callback registered with \<open>addListener\<close> is among them as long as no
  later \<open>removeListener\<close> names it.
\<close>

theorem setAppState_notifies:
  "getAppState (setAppState state s) = state
   \<and> emitted (setAppState state s) = emitted s @ [listeners s]
   \<and> listeners (setAppState state s) = listeners s
   \<and> (RemoveListener c \<notin> set cs \<longrightarrow>
        c \<in> set (listeners (innpv_run cs (addListener c s0))))"
proof -
  have "c \<in> set (listeners (addListener c s0))"
    by (simp add: addListener_def)
  then have "RemoveListener c \<notin> set cs \<longrightarrow> c \<in> set (listeners (innpv_run cs (addListener c s0)))"
    by (simp add: innpv_run_keeps_listener)
  then show ?thesis
    by (simp add: getAppState_def setAppState_def innpv_notifyChanged_def)
qed

theorem setAppState_notifies_witness:
  "RemoveListener 7 \<notin> set [AddListener 8, RemoveListener 8, AddListener 9, SetAppState (1::int)]
   \<and> 7 \<in> set (listeners
        (innpv_run [AddListener 8, RemoveListener 8, AddListener 9, SetAppState (1::int)]
          (addListener 7 (innpv_constructor 0))))
   \<and> getAppState (setAppState (2::int)
        (innpv_run [AddListener 8, RemoveListener 8, AddListener 9, SetAppState (1::int)]
          (addListener 7 (innpv_constructor 0)))) = 2
   \<and> emitted (setAppState (2::int)
        (innpv_run [AddListener 8, RemoveListener 8, AddListener 9, SetAppState (1::int)]
          (addListener 7 (innpv_constructor 0)))) = [[7, 9], [7, 9]]"
proof -
  let ?cs = "[AddListener 8, RemoveListener 8, AddListener 9, SetAppState (1::int)]"
  let ?s = "innpv_run ?cs (addListener 7 (innpv_constructor 0))"
  have h: "RemoveListener 7 \<notin> set ?cs" by simp
  have l: "listeners ?s = [7, 9]" by code_simp
  have e: "emitted ?s = [[7, 9]]" by code_simp
  have t: "getAppState (setAppState 2 ?s) = 2
     \<and> emitted (setAppState 2 ?s) = emitted ?s @ [listeners ?s]
     \<and> 7 \<in> set (listeners ?s)"
    using h setAppState_notifies [of 2 ?s 7 ?cs "innpv_constructor 0"] by blast
  then have "emitted (setAppState 2 ?s) = [[7, 9]] @ [[7, 9]]"
    by (simp only: l e)
  then have "emitted (setAppState 2 ?s) = [[7, 9], [7, 9]]"
    by (simp only: append.simps)
  with h t show ?thesis
    by blast
qed



section \<open>Clearing the prediction\<close>

text \<open>
  Claim C5. In a state reached from a \<open>receivedAnalysis\<close> by any adjustments (the values
  list of the input size being an array allocated beforehand), \<open>clearPredictions\<close>
  returns normally, sets \<open>predictedBatchSize\<close> to \<open>null\<close>, replaces the text of the current
  annotation range by the annotation of the original tuple, every dimension as it was
  given, and then notifies the observers. The three infos and \<open>maxBatchSize\<close> are those
  of the analysis, and the values list is untouched.
\<close>

theorem clearPredictions_restores:
  assumes "heap w0 (getInputSize ii) = Some vs" and "getInputSize ii < nextAddr w0"
    and "w = run (map Adjust as) (snd (receivedAnalysis ti mi ii w0))"
  shows "fst (clearPredictions w) = Normal
     \<and> predictedBatchSize (snd (clearPredictions w)) = None
     \<and> (\<exists>r. currentAnnotationRange w = Some r
          \<and> effects (snd (clearPredictions w)) =
              effects w @
              [IgnoreEditorChanges,
               SetTextInRange r
                 (''@innpv size ('' @ join '', '' (map Number_toString vs) @ '')''),
               GroupChangesSinceCheckpoint (currentUndoCheckpoint w),
               SubscribeToEditorChanges,
               NotifyChanged])
     \<and> throughputInfo (snd (clearPredictions w)) = Some ti
     \<and> memoryInfo (snd (clearPredictions w)) = Some mi
     \<and> inputInfo (snd (clearPredictions w)) = Some ii
     \<and> maxBatchSize (snd (clearPredictions w)) =
         Some (getBatchSizeFromUsage (getUsageModelMb mi) (getMaxCapacityMb mi))
     \<and> heap (snd (clearPredictions w)) (getInputSize ii) = Some vs"
proof -
  let ?a = "snd (receivedAnalysis ti mi ii w0)"
  let ?c = "w\<lparr>predictedBatchSize := None\<rparr>"
  have info: "inputInfo w = Some ii"
    by (simp add: assms(3) run_adjust_fields receivedAnalysis_fields)
  have "getInputSize ii < nextAddr ?a"
    using assms(2) by (simp add: receivedAnalysis_heap)
  then have "heap w (getInputSize ii) = heap ?a (getInputSize ii)"
    unfolding assms(3) by (rule run_heap)
  then have hp: "heap w (getInputSize ii) = Some vs"
    using assms(1) by (simp add: receivedAnalysis_heap)
  have addr: "getInputSize ii < nextAddr w"
    unfolding assms(3)
    using assms(2) run_nextAddr [of "Suc (getInputSize ii)" ?a "map Adjust as"]
    by (simp add: receivedAnalysis_heap)
  obtain r where r: "currentAnnotationRange w = Some r"
    using receivedAnalysis_range [of ti mi ii w0] run_adjust_range [of ?a _ as]
    unfolding assms(3) by blast
  have c: "inputInfo ?c = Some ii" "heap ?c (getInputSize ii) = Some vs"
    "currentAnnotationRange ?c = Some r"
    using info hp r by simp_all
  note u = updateAnnotationInBuffer_effects [OF c]
  have fields: "throughputInfo w = Some ti" "memoryInfo w = Some mi"
    "maxBatchSize w = Some (getBatchSizeFromUsage (getUsageModelMb mi) (getMaxCapacityMb mi))"
    by (simp_all add: assms(3) run_adjust_fields receivedAnalysis_fields)
  have 1: "fst (clearPredictions w) = Normal"
    using u(1) by (simp add: clearPredictions_def updateAnnotationAndNotify_Normal)
  have 2: "predictedBatchSize (snd (clearPredictions w)) = None"
    by (simp add: clearPredictions_def updateAnnotationAndNotify_fields)
  have 3: "effects (snd (clearPredictions w)) =
              effects w @
              [IgnoreEditorChanges,
               SetTextInRange r
                 (''@innpv size ('' @ join '', '' (map Number_toString vs) @ '')''),
               GroupChangesSinceCheckpoint (currentUndoCheckpoint w),
               SubscribeToEditorChanges,
               NotifyChanged]"
    using u(1,2) by (simp add: clearPredictions_def updateAnnotationAndNotify_Normal
        notifyChanged_def emit_def)
  have 4: "throughputInfo (snd (clearPredictions w)) = Some ti"
    "memoryInfo (snd (clearPredictions w)) = Some mi"
    "inputInfo (snd (clearPredictions w)) = Some ii"
    "maxBatchSize (snd (clearPredictions w)) =
         Some (getBatchSizeFromUsage (getUsageModelMb mi) (getMaxCapacityMb mi))"
    using fields info by (simp_all add: clearPredictions_def updateAnnotationAndNotify_fields)
  have 5: "heap (snd (clearPredictions w)) (getInputSize ii) = Some vs"
    using addr hp by (simp add: clearPredictions_def updateAnnotationAndNotify_heap)
  show ?thesis
    using 1 2 3 4 5 r by simp
qed

theorem clearPredictions_restores_witness:
  "fst (clearPredictions
     (run (map Adjust [UpdateThroughput 0 100])
       (snd (receivedAnalysis scenario_throughput scenario_memory scenario_input scenario_world))))
   = Normal
   \<and> predictedBatchSize (snd (clearPredictions
       (run (map Adjust [UpdateThroughput 0 100])
         (snd (receivedAnalysis scenario_throughput scenario_memory scenario_input scenario_world)))))
     = None
   \<and> (\<exists>r. effects (snd (clearPredictions
         (run (map Adjust [UpdateThroughput 0 100])
           (snd (receivedAnalysis scenario_throughput scenario_memory scenario_input scenario_world)))))
       = effects
           (run (map Adjust [UpdateThroughput 0 100])
             (snd (receivedAnalysis scenario_throughput scenario_memory scenario_input scenario_world)))
         @ [IgnoreEditorChanges,
            SetTextInRange r ''@innpv size (32, 3, 224, 224)'',
            GroupChangesSinceCheckpoint (Some 0),
            SubscribeToEditorChanges,
            NotifyChanged])"
proof -
  let ?w = "run (map Adjust [UpdateThroughput 0 100])
       (snd (receivedAnalysis scenario_throughput scenario_memory scenario_input scenario_world))"
  have h: "heap scenario_world (getInputSize scenario_input) = Some [Dim 32, Dim 3, Dim 224, Dim 224]"
    by (simp add: scenario_world_def scenario_input_def constructor_def)
  have n: "getInputSize scenario_input < nextAddr scenario_world"
    by (simp add: scenario_world_def scenario_input_def constructor_def)
  have j: "''@innpv size ('' @ join '', '' (map Number_toString [Dim 32, Dim 3, Dim 224, Dim 224]) @ '')''
      = ''@innpv size (32, 3, 224, 224)''"
    by code_simp
  have c: "currentUndoCheckpoint ?w = Some 0"
    unfolding scenario_throughput_def scenario_memory_def scenario_input_def scenario_world_def
    by code_simp
  show ?thesis
    using clearPredictions_restores [OF h n refl, of "[UpdateThroughput 0 100]"
        scenario_throughput scenario_memory]
    unfolding j c by blast
qed


section \<open>The annotation text\<close>

text \<open>
  Claim C8. Let the input size of the stored input info be the tuple \<open>d, d1, \<dots>, dn\<close>.
  The string \<open>_getAnnotationString\<close> builds, which is the string
  \<open>_updateAnnotationInBuffer\<close> writes to the buffer, is \<open>@innpv size (\<close> followed by
  \<open>v0\<close>, then each of \<open>d1, \<dots>, dn\<close> in order preceded by a comma and a space, then
  \<open>)\<close>. Here \<open>v0\<close> is \<open>d\<close> when no prediction is active and \<open>Math.round\<close> of the
  predicted batch size when one is, which for a finite prediction is an integer at
  distance at most one half from it.
\<close>

theorem annotation_format:
  assumes "inputInfo w = Some ii"
    and "array_load (getInputSize ii) w = Some (d # ds)"
    and "currentAnnotationRange w = Some r"
    and "v0 = (case predictedBatchSize w of None \<Rightarrow> d | Some p \<Rightarrow> Math_round p)"
  shows "fst (getAnnotationString w) =
           Inr (''@innpv size ('' @ Number_toString v0
                @ concat (map (\<lambda>v. '', '' @ Number_toString v) ds) @ '')'')
     \<and> effects (snd (updateAnnotationInBuffer w)) =
         effects w @
         [IgnoreEditorChanges,
          SetTextInRange r
            (''@innpv size ('' @ Number_toString v0
             @ concat (map (\<lambda>v. '', '' @ Number_toString v) ds) @ '')''),
          GroupChangesSinceCheckpoint (currentUndoCheckpoint w),
          SubscribeToEditorChanges]
     \<and> (predictedBatchSize w = Some (Fin x) \<longrightarrow>
          (\<exists>n. v0 = Dim n \<and> \<bar>real_of_int n - x\<bar> \<le> 1 / 2))"
proof -
  have hp: "heap w (getInputSize ii) = Some (d # ds)"
    using assms(2) by (simp add: array_load_def)
  have tuple: "(case predictedBatchSize w of None \<Rightarrow> d # ds
                | Some p \<Rightarrow> assign_first (Math_round p) (d # ds)) = v0 # ds"
    using assms(4) by (simp split: option.splits)
  have str: "join '', '' (map Number_toString (v0 # ds)) =
      Number_toString v0 @ concat (map (\<lambda>v. '', '' @ Number_toString v) ds)"
    by (simp add: join_Cons comp_def)
  have 1: "fst (getAnnotationString w) =
           Inr (''@innpv size ('' @ Number_toString v0
                @ concat (map (\<lambda>v. '', '' @ Number_toString v) ds) @ '')'')"
    using getAnnotationString_value [OF assms(1) hp] by (simp only: tuple str append_assoc)
  have 2: "effects (snd (updateAnnotationInBuffer w)) =
         effects w @
         [IgnoreEditorChanges,
          SetTextInRange r
            (''@innpv size ('' @ Number_toString v0
             @ concat (map (\<lambda>v. '', '' @ Number_toString v) ds) @ '')''),
          GroupChangesSinceCheckpoint (currentUndoCheckpoint w),
          SubscribeToEditorChanges]"
    using updateAnnotationInBuffer_effects(2) [OF assms(1) hp assms(3)] by (simp only: tuple str append_assoc)
  have 3: "predictedBatchSize w = Some (Fin x) \<longrightarrow>
          (\<exists>n. v0 = Dim n \<and> \<bar>real_of_int n - x\<bar> \<le> 1 / 2)"
    using assms(4) round_nearest [of x] by simp
  show ?thesis
    using 1 2 3 by blast
qed

theorem annotation_format_witness:
  "fst (getAnnotationString
     (snd (updateMemoryUsage 0 100
       (snd (receivedAnalysis scenario_throughput uneven_memory scenario_input scenario_world)))))
   = Inr ''@innpv size (156, 3, 224, 224)''
   \<and> predictedBatchSize
       (snd (updateMemoryUsage 0 100
         (snd (receivedAnalysis scenario_throughput uneven_memory scenario_input scenario_world))))
     = Some (Fin (781 / 5))"
proof -
  let ?a = "snd (receivedAnalysis scenario_throughput uneven_memory scenario_input scenario_world)"
  let ?w = "snd (updateMemoryUsage 0 100 ?a)"
  have i: "inputInfo ?w = Some scenario_input"
    using adjust_fields(3) [of "UpdateMemoryUsage 0 100" ?a] by (simp add: receivedAnalysis_fields)
  have l: "array_load (getInputSize scenario_input) ?w = Some [Dim 32, Dim 3, Dim 224, Dim 224]"
    unfolding scenario_throughput_def uneven_memory_def scenario_input_def scenario_world_def
    by code_simp
  have r: "currentAnnotationRange ?w = Some \<lparr>range_start = (3, 0), range_end = (3, 30)\<rparr>"
    unfolding scenario_throughput_def uneven_memory_def scenario_input_def scenario_world_def
    by code_simp
  have p: "predictedBatchSize ?w = Some (Fin (781 / 5))"
    unfolding scenario_throughput_def uneven_memory_def scenario_input_def scenario_world_def
    by code_simp
  have t: "''@innpv size ('' @ Number_toString (Math_round (Fin (781 / 5)))
                @ concat (map (\<lambda>v. '', '' @ Number_toString v) [Dim 3, Dim 224, Dim 224]) @ '')''
      = ''@innpv size (156, 3, 224, 224)''"
    by code_simp
  have v: "Math_round (Fin (781 / 5)) =
      (case predictedBatchSize ?w of None \<Rightarrow> Dim 32 | Some p \<Rightarrow> Math_round p)"
    by (simp only: p option.case)
  show ?thesis
    using annotation_format [OF i l r v] p unfolding t by blast
qed



section \<open>The range of the predicted batch size\<close>

text \<open>
  Claim C1, as amended. Take a state reached from a \<open>receivedAnalysis\<close> by any
  adjustments, with a runtime model of positive slope and a \<open>maxBatchSize\<close> of at least
  \<open>1\<close>. After \<open>updateThroughput\<close>, if the intercept of the runtime model is not zero,
  \<open>predictedBatchSize\<close> lies between \<open>1\<close> and \<open>maxBatchSize\<close>; and if the intercept is
  positive and the clamped target throughput is at or above the asymptote
  \<open>1000 / slope\<close>, it is exactly \<open>maxBatchSize\<close>.
\<close>

theorem updateThroughput_in_range:
  assumes "0 < slope (getRuntimeModelMs ti)"
    and "less_eq_number (Fin 1) M"
    and "M = getBatchSizeFromUsage (getUsageModelMb mi) (getMaxCapacityMb mi)"
    and "w = run (map Adjust as) (snd (receivedAnalysis ti mi ii w0))"
    and "target =
           max (min ((basePct + deltaPct) / 100 * getMaxThroughput ti) (getThroughputLimit ti)) 0"
  shows "maxBatchSize (snd (updateThroughput deltaPct basePct w)) = Some M
     \<and> (intercept (getRuntimeModelMs ti) \<noteq> 0 \<longrightarrow>
          (\<exists>p. predictedBatchSize (snd (updateThroughput deltaPct basePct w)) = Some p
             \<and> less_eq_number (Fin 1) p \<and> less_eq_number p M))
     \<and> (0 < intercept (getRuntimeModelMs ti) \<and> 1000 / slope (getRuntimeModelMs ti) \<le> target \<longrightarrow>
          predictedBatchSize (snd (updateThroughput deltaPct basePct w)) = Some M)"
proof -
  let ?s = "slope (getRuntimeModelMs ti)"
  let ?i = "intercept (getRuntimeModelMs ti)"
  let ?x = "getBatchSizeFromThroughput (getRuntimeModelMs ti) target"
  let ?w' = "snd (updateThroughput deltaPct basePct w)"
  note st = adjusted_state [OF assms(4)]
  have t0: "0 \<le> target"
    using assms(5) by simp
  have m: "maxBatchSize ?w' = Some M"
    using adjust_fields(4) [of "UpdateThroughput deltaPct basePct" w] st assms(3) by simp
  have p: "predictedBatchSize ?w' =
      (if less_number ?x (Fin 0) then Some M
       else Some (Math_max (Math_min ?x M) (Fin 1)))"
    using st assms(3)
    by (simp add: updateThroughput_def Let_def updateAnnotationAndNotify_fields assms(5))
  have range: "\<exists>p. predictedBatchSize ?w' = Some p \<and> less_eq_number (Fin 1) p \<and> less_eq_number p M"
    if i: "?i \<noteq> 0"
  proof -
    have "?x \<noteq> NaN"
    proof
      assume "?x = NaN"
      then have d: "1000 - ?s * target = 0" and n: "?i * target = 0"
        by (simp_all add: getBatchSizeFromThroughput_def divide_number_def split: if_splits)
      from n i have "target = 0" by simp
      with d show False by simp
    qed
    then show ?thesis
      using p clamp_range [OF assms(2), of ?x] less_eq_number_refl [OF assms(2)] assms(2)
      by (cases "less_number ?x (Fin 0)") simp_all
  qed
  have top: "predictedBatchSize ?w' = Some M"
    if i: "0 < ?i" and a: "1000 / ?s \<le> target"
  proof -
    have ge: "1000 \<le> ?s * target"
      using a assms(1) by (simp add: pos_divide_le_eq mult.commute)
    then have tpos: "0 < target"
      using assms(1) t0 by (cases "target = 0") simp_all
    then have npos: "0 < ?i * target"
      using i by simp
    show ?thesis
    proof (cases "1000 - ?s * target = 0")
      case True
      then have "?x = PosInf"
        using npos by (simp add: getBatchSizeFromThroughput_def divide_number_def)
      then show ?thesis
        using p clamp_PosInf [OF assms(2)] by simp
    next
      case False
      then have neg: "1000 - ?s * target < 0"
        using ge by simp
      have "?x = Fin (?i * target / (1000 - ?s * target))"
        using False by (simp add: getBatchSizeFromThroughput_def divide_number_def)
      moreover have "?i * target / (1000 - ?s * target) < 0"
        using npos neg by (simp add: divide_pos_neg)
      ultimately show ?thesis
        using p by simp
    qed
  qed
  show ?thesis
    using m range top by blast
qed

theorem updateThroughput_in_range_witness:
  "maxBatchSize
     (snd (updateThroughput 25 100
       (run (map Adjust [UpdateMemoryUsage (- 40) 100])
         (snd (receivedAnalysis unlimited_throughput scenario_memory scenario_input scenario_world)))))
   = Some (Fin 156)
   \<and> predictedBatchSize
     (snd (updateThroughput 25 100
       (run (map Adjust [UpdateMemoryUsage (- 40) 100])
         (snd (receivedAnalysis unlimited_throughput scenario_memory scenario_input scenario_world)))))
   = Some (Fin 156)
   \<and> (\<exists>p. predictedBatchSize
         (snd (updateThroughput 25 100
           (run (map Adjust [UpdateMemoryUsage (- 40) 100])
             (snd (receivedAnalysis unlimited_throughput scenario_memory scenario_input
                    scenario_world)))))
        = Some p
        \<and> less_eq_number (Fin 1) p \<and> less_eq_number p (Fin 156))"
proof -
  have s: "0 < slope (getRuntimeModelMs unlimited_throughput)"
    by (simp add: unlimited_throughput_def)
  have one: "less_eq_number (Fin 1) (Fin 156)"
    by simp
  have M: "Fin 156 =
      getBatchSizeFromUsage (getUsageModelMb scenario_memory) (getMaxCapacityMb scenario_memory)"
    by (simp add: scenario_memory_def getBatchSizeFromUsage_def divide_number_def)
  have t: "500 = max (min ((100 + 25) / 100 * getMaxThroughput unlimited_throughput)
                       (getThroughputLimit unlimited_throughput)) 0"
    by (simp add: unlimited_throughput_def)
  have i: "intercept (getRuntimeModelMs unlimited_throughput) \<noteq> 0"
    by (simp add: unlimited_throughput_def)
  have a: "0 < intercept (getRuntimeModelMs unlimited_throughput)
      \<and> 1000 / slope (getRuntimeModelMs unlimited_throughput) \<le> 500"
    by (simp add: unlimited_throughput_def)
  show ?thesis
    using updateThroughput_in_range [OF s one M refl t] i a by blast
qed

text \<open>
  Without these provisos the claim fails in three ways. On a device whose capacity gives
  a ceiling of \<open>0.4\<close>, the lower clamp wins and the prediction is \<open>1\<close>, above the ceiling.
  With a zero intercept, a target on the asymptote divides zero by zero and the
  prediction is \<open>NaN\<close>. With a negative intercept, a target of \<open>600\<close>, beyond the
  asymptote \<open>500\<close>, inverts to the positive batch size \<open>30\<close>, which is kept instead of
  the ceiling \<open>156\<close>.
\<close>

theorem updateThroughput_in_range_counterexample:
  "0 < slope (getRuntimeModelMs scenario_throughput)
   \<and> predictedBatchSize
       (snd (updateThroughput 0 100
         (snd (receivedAnalysis scenario_throughput small_memory scenario_input scenario_world))))
     = Some (Fin 1)
   \<and> maxBatchSize
       (snd (updateThroughput 0 100
         (snd (receivedAnalysis scenario_throughput small_memory scenario_input scenario_world))))
     = Some (Fin (2 / 5))
   \<and> \<not> less_eq_number (Fin 1) (Fin (2 / 5))
   \<and> 0 < slope (getRuntimeModelMs flat_throughput)
   \<and> predictedBatchSize
       (snd (updateThroughput 0 100
         (snd (receivedAnalysis flat_throughput scenario_memory scenario_input scenario_world))))
     = Some NaN
   \<and> \<not> less_eq_number (Fin 1) NaN
   \<and> 0 < slope (getRuntimeModelMs negative_throughput)
   \<and> 1000 / slope (getRuntimeModelMs negative_throughput)
       \<le> max (min ((100 + 0) / 100 * getMaxThroughput negative_throughput)
                 (getThroughputLimit negative_throughput)) 0
   \<and> predictedBatchSize
       (snd (updateThroughput 0 100
         (snd (receivedAnalysis negative_throughput scenario_memory scenario_input scenario_world))))
     = Some (Fin 30)
   \<and> maxBatchSize
       (snd (updateThroughput 0 100
         (snd (receivedAnalysis negative_throughput scenario_memory scenario_input scenario_world))))
     = Some (Fin 156)"
  by code_simp

text \<open>
  Claim C2, as amended. Take a state reached from a \<open>receivedAnalysis\<close> by any
  adjustments, with a usage model of positive slope and a \<open>maxBatchSize\<close> of at least
  \<open>1\<close>. After \<open>updateMemoryUsage\<close>, whatever the two percentages, \<open>predictedBatchSize\<close>
  lies between \<open>1\<close> and \<open>maxBatchSize\<close>.
\<close>

theorem updateMemoryUsage_in_range:
  assumes "0 < slope (getUsageModelMb mi)"
    and "less_eq_number (Fin 1) M"
    and "M = getBatchSizeFromUsage (getUsageModelMb mi) (getMaxCapacityMb mi)"
    and "w = run (map Adjust as) (snd (receivedAnalysis ti mi ii w0))"
  shows "maxBatchSize (snd (updateMemoryUsage deltaPct basePct w)) = Some M
     \<and> (\<exists>p. predictedBatchSize (snd (updateMemoryUsage deltaPct basePct w)) = Some p
          \<and> less_eq_number (Fin 1) p \<and> less_eq_number p M)"
proof -
  let ?s = "slope (getUsageModelMb mi)"
  let ?i = "intercept (getUsageModelMb mi)"
  let ?cap = "getMaxCapacityMb mi"
  let ?u = "min ((basePct + deltaPct) / 100 * ?cap) ?cap"
  let ?p = "Math_max (getBatchSizeFromUsage (getUsageModelMb mi) ?u) (Fin 1)"
  note st = adjusted_state [OF assms(4)]
  have M: "M = Fin ((?cap - ?i) / ?s)"
    using assms(1,3) by (simp add: getBatchSizeFromUsage_def divide_number_def)
  have one: "1 \<le> (?cap - ?i) / ?s"
    using assms(2) unfolding M less_eq_number_Fin .
  have "?u - ?i \<le> ?cap - ?i" by simp
  then have le: "(?u - ?i) / ?s \<le> (?cap - ?i) / ?s"
    using assms(1) by (simp add: divide_right_mono)
  have x: "getBatchSizeFromUsage (getUsageModelMb mi) ?u = Fin ((?u - ?i) / ?s)"
    using assms(1) by (simp add: getBatchSizeFromUsage_def divide_number_def)
  have p: "predictedBatchSize (snd (updateMemoryUsage deltaPct basePct w)) = Some ?p"
    by (simp add: updateMemoryUsage_def st Let_def updateAnnotationAndNotify_fields)
  have m: "maxBatchSize (snd (updateMemoryUsage deltaPct basePct w)) = Some M"
    using adjust_fields(4) [of "UpdateMemoryUsage deltaPct basePct" w] st assms(3) by simp
  have r: "less_eq_number (Fin 1) ?p \<and> less_eq_number ?p M"
    unfolding x M using one le by auto
  show ?thesis
    using p m r by blast
qed

theorem updateMemoryUsage_in_range_witness:
  "maxBatchSize
     (snd (updateMemoryUsage 900 100
       (run (map Adjust [UpdateThroughput 0 100])
         (snd (receivedAnalysis scenario_throughput scenario_memory scenario_input scenario_world)))))
   = Some (Fin 156)
   \<and> (\<exists>p. predictedBatchSize
         (snd (updateMemoryUsage 900 100
           (run (map Adjust [UpdateThroughput 0 100])
             (snd (receivedAnalysis scenario_throughput scenario_memory scenario_input
                    scenario_world)))))
        = Some p
        \<and> less_eq_number (Fin 1) p \<and> less_eq_number p (Fin 156))"
proof -
  have s: "0 < slope (getUsageModelMb scenario_memory)"
    by (simp add: scenario_memory_def)
  have one: "less_eq_number (Fin 1) (Fin 156)"
    by simp
  have M: "Fin 156 =
      getBatchSizeFromUsage (getUsageModelMb scenario_memory) (getMaxCapacityMb scenario_memory)"
    by (simp add: scenario_memory_def getBatchSizeFromUsage_def divide_number_def)
  show ?thesis
    using updateMemoryUsage_in_range [OF s one M refl] .
qed

text \<open>
  On the device whose ceiling is \<open>0.4\<close> the prediction is clamped up to \<open>1\<close>, above the
  ceiling.
\<close>

theorem updateMemoryUsage_in_range_counterexample:
  "0 < slope (getUsageModelMb small_memory)
   \<and> predictedBatchSize
       (snd (updateMemoryUsage 0 100
         (snd (receivedAnalysis scenario_throughput small_memory scenario_input scenario_world))))
     = Some (Fin 1)
   \<and> maxBatchSize
       (snd (updateMemoryUsage 0 100
         (snd (receivedAnalysis scenario_throughput small_memory scenario_input scenario_world))))
     = Some (Fin (2 / 5))
   \<and> \<not> less_eq_number (Fin 1) (Fin (2 / 5))"
  by code_simp

end
